theory Spec2Isabelle
  imports Complex_Main "HOL-Library.Product_Lexorder"
begin

section \<open>Environmental Impact Explorer: the metric pipeline of app.py\<close>

text \<open>
  The development embeds the helper functions of \<open>app.py\<close>, the body of
  \<open>create_environmental_map\<close> up to the table it hands to the chart, the
  function \<open>calculate_facility_impact\<close> and the plotting branch of \<open>main\<close>.

  Numbers. A finite float is idealised as a real number: no rounding, no
  overflow. A cell of a dataset array is a \<open>float64\<close>: not-a-number, one
  of the two infinities, or a finite number; comparisons and arithmetic on it
  follow IEEE 754 for the special values. The facility inputs, read from
  text, are finite numbers.

  Effects. Every exception the embedded code can raise is a value \<open>Inl e\<close>
  of the result; every call of \<open>st.error\<close> is a message in a returned list;
  what is drawn on the page is a returned list of events.
\<close>

subsection \<open>Values and exceptions\<close>

datatype error = KeyError | ValueError | IndexError | OverflowError

datatype float64 = NaN | Fin real | PInf | NInf

text \<open>
  The comparisons \<open><=\<close> and \<open><\<close> of two floats: false as soon as one side
  is NaN, and the infinities at the two ends.
\<close>

fun f64_le :: "float64 \<Rightarrow> float64 \<Rightarrow> bool" where
  "f64_le NaN y = False"
| "f64_le x NaN = False"
| "f64_le NInf y = True"
| "f64_le x PInf = True"
| "f64_le (Fin a) (Fin b) = (a \<le> b)"
| "f64_le PInf y = False"
| "f64_le x NInf = False"

fun f64_lt :: "float64 \<Rightarrow> float64 \<Rightarrow> bool" where
  "f64_lt NaN y = False"
| "f64_lt x NaN = False"
| "f64_lt PInf y = False"
| "f64_lt x NInf = False"
| "f64_lt (Fin a) (Fin b) = (a < b)"
| "f64_lt NInf y = True"
| "f64_lt x PInf = True"

text \<open>
  Sum, difference and product: NaN is absorbing, opposite infinities have no
  sum, equal infinities no difference, and an infinity times zero is NaN.
\<close>

fun f64_add :: "float64 \<Rightarrow> float64 \<Rightarrow> float64" where
  "f64_add NaN y = NaN"
| "f64_add x NaN = NaN"
| "f64_add (Fin a) (Fin b) = Fin (a + b)"
| "f64_add PInf NInf = NaN"
| "f64_add NInf PInf = NaN"
| "f64_add PInf y = PInf"
| "f64_add x PInf = PInf"
| "f64_add NInf y = NInf"
| "f64_add x NInf = NInf"

fun f64_neg :: "float64 \<Rightarrow> float64" where
  "f64_neg NaN = NaN"
| "f64_neg (Fin a) = Fin (- a)"
| "f64_neg PInf = NInf"
| "f64_neg NInf = PInf"

definition f64_sub :: "float64 \<Rightarrow> float64 \<Rightarrow> float64" where
  "f64_sub x y = f64_add x (f64_neg y)"

fun f64_sign :: "float64 \<Rightarrow> real" where
  "f64_sign NaN = 0"
| "f64_sign (Fin a) = sgn a"
| "f64_sign PInf = 1"
| "f64_sign NInf = - 1"

fun f64_mul :: "float64 \<Rightarrow> float64 \<Rightarrow> float64" where
  "f64_mul NaN y = NaN"
| "f64_mul x NaN = NaN"
| "f64_mul (Fin a) (Fin b) = Fin (a * b)"
| "f64_mul x y =
     (if f64_sign x * f64_sign y = 0 then NaN
      else if 0 < f64_sign x * f64_sign y then PInf
      else NInf)"

subsection \<open>Unit conversion (lines 23 to 67)\<close>

definition convert_power_to_kwh_per_year :: "real \<Rightarrow> string \<Rightarrow> error + real" where
  "convert_power_to_kwh_per_year val unit =
     (if unit = ''kWh/yr'' then Inr val
      else if unit = ''kWh/mo'' then Inr (val * 12)
      else if unit = ''kW'' then Inr (val * 8760)
      else if unit = ''MW'' then Inr (val * 1000 * 8760)
      else Inr 0)"

definition convert_water_to_liters_per_year :: "real \<Rightarrow> string \<Rightarrow> error + real" where
  "convert_water_to_liters_per_year val unit =
     (if unit = ''L/yr'' then Inr val
      else if unit = ''L/mo'' then Inr (val * 12)
      else if unit = ''L/s'' then Inr (val * 31536000)
      else if unit = ''gpm'' then Inr (val * 525600 * 3.78541)
      else if unit = ''gal/mo'' then Inr (val * 12 * 3.78541)
      else Inr 0)"

subsection \<open>Text input: \<open>str.strip\<close> and \<open>float\<close>\<close>

text \<open>
  \<open>py_isspace\<close> lists the characters below code point 256 that Python's
  \<open>str.strip()\<close> removes: tab, line feed, vertical tab, form feed, carriage
  return, the four separators 28 to 31, space, next line (133) and no-break
  space (160).
\<close>

definition py_isspace :: "char \<Rightarrow> bool" where
  "py_isspace c = ((of_char c :: nat) \<in> set [9, 10, 11, 12, 13, 28, 29, 30, 31, 32, 133, 160])"

definition strip :: "string \<Rightarrow> string" where
  "strip s = rev (dropWhile py_isspace (rev (dropWhile py_isspace s)))"

definition is_digit :: "char \<Rightarrow> bool" where
  "is_digit c = (48 \<le> (of_char c :: nat) \<and> (of_char c :: nat) \<le> 57)"

definition digits_value :: "string \<Rightarrow> nat" where
  "digits_value ds = foldl (\<lambda>a c. 10 * a + (of_char c - 48)) 0 ds"

text \<open>
  \<open>split_sign\<close> reads the optional sign of a numeric literal and returns
  whether it is a minus, with the rest of the text.
\<close>

fun split_sign :: "string \<Rightarrow> bool \<times> string" where
  "split_sign [] = (False, [])"
| "split_sign (c # r) =
     (if c = CHR ''-'' then (True, r)
      else if c = CHR ''+'' then (False, r)
      else (False, c # r))"

text \<open>
  \<open>py_exponent\<close> reads the exponent part of a float literal, the text after
  the number: nothing (exponent 0), or \<open>e\<close> or \<open>E\<close>, an optional sign and at
  least one digit. Anything else is no float literal.
\<close>

definition py_exponent :: "string \<Rightarrow> int option" where
  "py_exponent r =
     (case r of
        [] \<Rightarrow> Some 0
      | c # q \<Rightarrow>
          if c = CHR ''e'' \<or> c = CHR ''E'' then
            (let (neg, ds) = split_sign q in
             if ds \<noteq> [] \<and> list_all is_digit ds
             then Some (if neg then - int (digits_value ds) else int (digits_value ds))
             else None)
          else None)"

text \<open>
  \<open>float\<close> trims less than \<open>str.strip\<close>: tab to carriage return and space,
  and, beyond ASCII, the spaces next line (133) and no-break space (160); the
  separators 28 to 31 stay and make the text no number.
\<close>

definition float_isspace :: "char \<Rightarrow> bool" where
  "float_isspace c = ((of_char c :: nat) \<in> set [9, 10, 11, 12, 13, 32, 133, 160])"

definition float_strip :: "string \<Rightarrow> string" where
  "float_strip s = rev (dropWhile float_isspace (rev (dropWhile float_isspace s)))"

text \<open>
  Digit grouping: an underscore is allowed between two digits and nowhere
  else; \<open>drop_underscores prev s\<close> removes the underscores of \<open>s\<close>, where
  \<open>prev\<close> is the character before \<open>s\<close>, or fails.
\<close>

fun drop_underscores :: "char \<Rightarrow> string \<Rightarrow> string option" where
  "drop_underscores prev [] = (if prev = CHR ''_'' then None else Some [])"
| "drop_underscores prev (c # r) =
     (if c = CHR ''_'' then
        (if is_digit prev then drop_underscores c r else None)
      else if prev = CHR ''_'' \<and> \<not> is_digit c then None
      else map_option ((#) c) (drop_underscores c r))"

text \<open>
  \<open>py_float\<close> is the builtin \<open>float\<close> on text, with \<open>None\<close> for the
  \<open>ValueError\<close> it raises. It covers the decimal literals of the language
  reference: surrounding whitespace, an optional sign, digits with an optional
  fraction (\<open>12\<close>, \<open>12.\<close>, \<open>12.5\<close>, \<open>.5\<close>), an optional exponent and
  digit grouping. A literal is read at its exact value. The texts \<open>inf\<close>,
  \<open>infinity\<close> and \<open>nan\<close>, which the builtin accepts, have no value among
  the finite numbers and are no number here, and a literal beyond the float
  range keeps its value where the builtin gives an infinity or zero.
\<close>

definition py_float :: "string \<Rightarrow> real option" where
  "py_float s =
     (case drop_underscores (CHR 0x00) (float_strip s) of
        None \<Rightarrow> None
      | Some t \<Rightarrow>
          (let (neg, r) = split_sign t;
               ip = takeWhile is_digit r;
               r1 = dropWhile is_digit r;
               (fp, r2) = (case r1 of
                             [] \<Rightarrow> ([], [])
                           | c # q \<Rightarrow> if c = CHR ''.''
                                      then (takeWhile is_digit q, dropWhile is_digit q)
                                      else ([], r1))
           in if ip = [] \<and> fp = [] then None
              else (case py_exponent r2 of
                      None \<Rightarrow> None
                    | Some e \<Rightarrow>
                        (let m = real (digits_value ip)
                                   + real (digits_value fp) / 10 ^ length fp;
                             x = (if 0 \<le> e then m * 10 ^ nat e else m / 10 ^ nat (- e))
                         in Some (if neg then - x else x)))))"

subsection \<open>Input validation (lines 69 to 91)\<close>

text \<open>
  The result is the returned pair \<open>(is_valid, numeric_value)\<close> together with
  the messages passed to \<open>st.error\<close>, in order.
\<close>

definition validate_numeric_input :: "string \<Rightarrow> string \<Rightarrow> (bool \<times> real) \<times> string list" where
  "validate_numeric_input val field_name =
     (if strip val = [] then ((False, 0), [])
      else (case py_float val of
              Some numeric_value \<Rightarrow>
                if numeric_value < 0
                then ((False, 0), [field_name @ '' must be a positive number''])
                else ((True, numeric_value), [])
            | None \<Rightarrow> ((False, 0), [field_name @ '' must be a valid number''])))"

subsection \<open>The dataset and the county identifiers\<close>

text \<open>
  \<open>load_data\<close> returns a dictionary with exactly these four keys, each a
  flattened array; the arrays are read positionally.
\<close>

record dataset =
  AWAREUSCF :: "float64 list"
  EFkgkWh :: "float64 list"
  EWIF :: "float64 list"
  CountyFIPS :: "float64 list"

text \<open>
  \<open>int(x)\<close> on a float truncates towards zero; it raises \<open>ValueError\<close> on
  NaN and \<open>OverflowError\<close> on an infinity.
\<close>

fun py_int :: "float64 \<Rightarrow> error + int" where
  "py_int NaN = Inl ValueError"
| "py_int PInf = Inl OverflowError"
| "py_int NInf = Inl OverflowError"
| "py_int (Fin x) = Inr (if 0 \<le> x then \<lfloor>x\<rfloor> else \<lceil>x\<rceil>)"

fun nat_digits :: "nat \<Rightarrow> string" where
  "nat_digits n =
     (if n < 10 then [''0123456789'' ! n]
      else nat_digits (n div 10) @ [''0123456789'' ! (n mod 10)])"

definition py_str :: "int \<Rightarrow> string" where
  "py_str i = (if i < 0 then CHR ''-'' # nat_digits (nat (- i)) else nat_digits (nat i))"

text \<open>\<open>str.zfill(width)\<close>: zeros on the left, after a leading sign.\<close>

definition zfill :: "nat \<Rightarrow> string \<Rightarrow> string" where
  "zfill width s =
     (if width \<le> length s then s
      else (case s of
              [] \<Rightarrow> replicate width CHR ''0''
            | c # r \<Rightarrow>
                if c = CHR ''+'' \<or> c = CHR ''-''
                then c # replicate (width - length s) CHR ''0'' @ r
                else replicate (width - length s) CHR ''0'' @ s))"

text \<open>
  The comprehension \<open>[str(int(fips_code)).zfill(5) for fips_code in fips]\<close>;
  the first code that is NaN or infinite aborts it.
\<close>

fun fips_strings :: "float64 list \<Rightarrow> error + string list" where
  "fips_strings [] = Inr []"
| "fips_strings (fips_code # rest) =
     (case py_int fips_code of
        Inl e \<Rightarrow> Inl e
      | Inr i \<Rightarrow>
          (case fips_strings rest of
             Inl e \<Rightarrow> Inl e
           | Inr r \<Rightarrow> Inr (zfill 5 (py_str i) # r)))"

subsection \<open>Percentiles\<close>

text \<open>
  Modelled from the spec: \<open>numpy.percentile\<close>, a library function whose code
  is not part of the repository. For percentile \<open>q\<close> over the sorted values of
  length \<open>n\<close> the index is \<open>q / 100 * (n - 1)\<close>, and the result interpolates
  linearly between the two sorted elements that bracket the index. A
  percentile outside 0 to 100 is a \<open>ValueError\<close>. The spec gives no value
  for an empty array; the library indexes the last element of the sorted
  array, which is an \<open>IndexError\<close> there.
\<close>

definition interpolate :: "real list \<Rightarrow> real \<Rightarrow> real" where
  "interpolate s idx =
     (let lo = nat \<lfloor>idx\<rfloor>;
          hi = min (lo + 1) (length s - 1)
      in s ! lo + (s ! hi - s ! lo) * (idx - real lo))"

definition np_percentile :: "real list \<Rightarrow> real \<Rightarrow> error + real" where
  "np_percentile a q =
     (if q < 0 \<or> 100 < q then Inl ValueError
      else if a = [] then Inl IndexError
      else Inr (interpolate (sort a) (q / 100 * real (length a - 1))))"

text \<open>
  Modelled from the spec: \<open>numpy.percentile\<close> on a float64 column, as the map
  calls it. It is the same index and the same interpolation formula, computed
  with the float64 operations, so that a column holding an infinity has a
  result too; on a column of finite numbers it is \<open>np_percentile\<close>. The
  column is sorted with the infinities at the two ends (\<open>f64_rank\<close>), and a
  NaN anywhere in the column makes the result NaN.
\<close>

fun f64_rank :: "float64 \<Rightarrow> nat \<times> real" where
  "f64_rank NInf = (0, 0)"
| "f64_rank (Fin x) = (1, x)"
| "f64_rank PInf = (2, 0)"
| "f64_rank NaN = (3, 0)"

definition f64_lerp :: "float64 \<Rightarrow> float64 \<Rightarrow> real \<Rightarrow> float64" where
  "f64_lerp x y g = f64_add x (f64_mul (f64_sub y x) (Fin g))"

definition interpolate_float64 :: "float64 list \<Rightarrow> real \<Rightarrow> float64" where
  "interpolate_float64 s idx =
     (let lo = nat \<lfloor>idx\<rfloor>;
          hi = min (lo + 1) (length s - 1)
      in f64_lerp (s ! lo) (s ! hi) (idx - real lo))"

definition np_percentile_float64 :: "float64 list \<Rightarrow> real \<Rightarrow> error + float64" where
  "np_percentile_float64 a q =
     (if q < 0 \<or> 100 < q then Inl ValueError
      else if a = [] then Inl IndexError
      else if NaN \<in> set a then Inr NaN
      else Inr (interpolate_float64 (sort_key f64_rank a) (q / 100 * real (length a - 1))))"

subsection \<open>The map (lines 280 to 381)\<close>

datatype impact = Low_Impact | Medium_Impact | High_Impact

record county_row =
  fips :: string
  val :: float64
  category :: impact
  formatted_value :: float64

text \<open>
  What the function shows: the table given to the choropleth, the two
  cutoffs and the three county counts of the statistics columns.
\<close>

record map_view =
  rows :: "county_row list"
  low_percentile :: float64
  high_percentile :: float64
  low_count :: nat
  medium_count :: nat
  high_count :: nat

definition metric_map :: "dataset \<Rightarrow> string \<rightharpoonup> float64 list" where
  "metric_map data =
     [''carbon footprint'' \<mapsto> EFkgkWh data,
      ''scope 1 & 2 water footprint'' \<mapsto> EWIF data,
      ''water scarcity footprint'' \<mapsto> AWAREUSCF data]"

text \<open>
  \<open>df.dropna()\<close>: the identifiers are strings, so only a NaN value drops a
  row. An infinity is no missing value and stays.
\<close>

definition dropna :: "(string \<times> float64) list \<Rightarrow> (string \<times> float64) list" where
  "dropna df = filter (\<lambda>(f, v). v \<noteq> NaN) df"

text \<open>\<open>df[df["value"] > 0]\<close>.\<close>

definition positive_rows :: "(string \<times> float64) list \<Rightarrow> (string \<times> float64) list" where
  "positive_rows df = filter (\<lambda>(f, v). f64_lt (Fin 0) v) df"

text \<open>The closure \<open>categorize_value\<close>, with the two captured cutoffs as arguments.\<close>

definition categorize_value :: "float64 \<Rightarrow> float64 \<Rightarrow> float64 \<Rightarrow> impact" where
  "categorize_value low high v =
     (if f64_le v low then Low_Impact
      else if f64_le v high then Medium_Impact
      else High_Impact)"

text \<open>
  \<open>round(4)\<close>: the nearest multiple of 0.0001, a tie going to the even one;
  NaN and the infinities are left as they are.
\<close>

definition rint :: "real \<Rightarrow> int" where
  "rint y =
     (let f = \<lfloor>y\<rfloor>; d = y - of_int f
      in if d < 1 / 2 then f
         else if 1 / 2 < d then f + 1
         else if even f then f else f + 1)"

fun round4 :: "float64 \<Rightarrow> float64" where
  "round4 (Fin x) = Fin (of_int (rint (x * 10000)) / 10000)"
| "round4 v = v"

definition count_category :: "impact \<Rightarrow> county_row list \<Rightarrow> nat" where
  "count_category c rs = length (filter (\<lambda>r. category r = c) rs)"

text \<open>
  The argument \<open>state\<close> is received and, as in the source, used nowhere in
  the body. Building the data frame from two columns of different lengths is
  a \<open>ValueError\<close>.
\<close>

definition create_environmental_map :: "dataset \<Rightarrow> string \<Rightarrow> string \<Rightarrow> error + map_view" where
  "create_environmental_map data metric_option state =
     (case metric_map data metric_option of
        None \<Rightarrow> Inl KeyError
      | Some vals \<Rightarrow>
          (case fips_strings (CountyFIPS data) of
             Inl e \<Rightarrow> Inl e
           | Inr fs \<Rightarrow>
               if length fs \<noteq> length vals then Inl ValueError
               else
                 (let df = positive_rows (dropna (zip fs vals)) in
                  case np_percentile_float64 (map snd df) 33 of
                    Inl e \<Rightarrow> Inl e
                  | Inr low \<Rightarrow>
                      (case np_percentile_float64 (map snd df) 66 of
                         Inl e \<Rightarrow> Inl e
                       | Inr high \<Rightarrow>
                           (let rs = map (\<lambda>(f, v).
                                       \<lparr>fips = f, val = v,
                                        category = categorize_value low high v,
                                        formatted_value = round4 v\<rparr>) df
                            in Inr \<lparr>rows = rs,
                                    low_percentile = low,
                                    high_percentile = high,
                                    low_count = count_category Low_Impact rs,
                                    medium_count = count_category Medium_Impact rs,
                                    high_count = count_category High_Impact rs\<rparr>)))))"

subsection \<open>The facility panel (lines 383 to 422) and the plotting branch of main\<close>

record facility_view =
  power_kwh_per_year :: real
  water_liters_per_year :: real

definition calculate_facility_impact ::
    "real \<Rightarrow> string \<Rightarrow> real \<Rightarrow> string \<Rightarrow> string \<Rightarrow> error + facility_view" where
  "calculate_facility_impact power_value power_unit water_value water_unit metric_option =
     (case convert_power_to_kwh_per_year power_value power_unit of
        Inl e \<Rightarrow> Inl e
      | Inr p \<Rightarrow>
          (case convert_water_to_liters_per_year water_value water_unit of
             Inl e \<Rightarrow> Inl e
           | Inr w \<Rightarrow> Inr \<lparr>power_kwh_per_year = p, water_liters_per_year = w\<rparr>))"

datatype ui_event =
    Error_Message string
  | Map_Shown map_view
  | Facility_Shown facility_view
  | Welcome

text \<open>
  The right-hand column of \<open>main\<close> (lines 241 to 278) as a function of the
  widget values: whether "Make Plot" was pressed, the two text inputs with
  their units, the metric, the state and the loaded data. The result is the
  sequence of things shown, or the exception that ends the run. A numeric
  variable the source leaves unbound (its text input was blank) is 0 here; it
  is read only under the test that both inputs are non-blank.
\<close>

definition main ::
    "bool \<Rightarrow> string \<Rightarrow> string \<Rightarrow> string \<Rightarrow> string \<Rightarrow> string \<Rightarrow> string \<Rightarrow> dataset
       \<Rightarrow> error + ui_event list" where
  "main make_plot power_value power_unit water_value water_unit metric_option state data =
     (if make_plot then
        (let ((power_valid, power_numeric), power_msgs) =
               (if strip power_value \<noteq> []
                then validate_numeric_input power_value ''Power consumption''
                else ((True, 0), []));
             ((water_valid, water_numeric), water_msgs) =
               (if strip water_value \<noteq> []
                then validate_numeric_input water_value ''Water consumption''
                else ((True, 0), []));
             shown = map Error_Message (power_msgs @ water_msgs)
         in if power_valid \<and> water_valid then
              (case create_environmental_map data metric_option state of
                 Inl e \<Rightarrow> Inl e
               | Inr m \<Rightarrow>
                   if strip power_value \<noteq> [] \<and> strip water_value \<noteq> [] then
                     (case calculate_facility_impact power_numeric power_unit
                             water_numeric water_unit metric_option of
                        Inl e \<Rightarrow> Inl e
                      | Inr f \<Rightarrow> Inr (shown @ [Map_Shown m, Facility_Shown f]))
                   else Inr (shown @ [Map_Shown m]))
            else Inr shown)
      else Inr [Welcome])"

section \<open>Unit conversion\<close>

text \<open>
  Claim C6. For every value \<open>v\<close>, the power conversion returns \<open>v\<close> for
  kWh/yr, \<open>v * 12\<close> for kWh/mo, \<open>v * 8760\<close> for kW and \<open>v * 1000 * 8760\<close> for
  MW; converting 5 kW gives 43800.
\<close>

theorem power_conversion_table:
  "convert_power_to_kwh_per_year v ''kWh/yr'' = Inr v
   \<and> convert_power_to_kwh_per_year v ''kWh/mo'' = Inr (v * 12)
   \<and> convert_power_to_kwh_per_year v ''kW'' = Inr (v * 8760)
   \<and> convert_power_to_kwh_per_year v ''MW'' = Inr (v * 1000 * 8760)
   \<and> convert_power_to_kwh_per_year 5 ''kW'' = Inr 43800"
  by (simp add: convert_power_to_kwh_per_year_def)

text \<open>
  Claim C7. For every value \<open>v\<close>, the water conversion returns \<open>v\<close> for L/yr,
  \<open>v * 12\<close> for L/mo, \<open>v * 31536000\<close> for L/s, \<open>v * 525600 * 3.78541\<close> for
  gpm and \<open>v * 12 * 3.78541\<close> for gal/mo, with these literals; converting
  2 gpm gives \<open>2 * 525600 * 3.78541\<close>.
\<close>

theorem water_conversion_table:
  "convert_water_to_liters_per_year v ''L/yr'' = Inr v
   \<and> convert_water_to_liters_per_year v ''L/mo'' = Inr (v * 12)
   \<and> convert_water_to_liters_per_year v ''L/s'' = Inr (v * 31536000)
   \<and> convert_water_to_liters_per_year v ''gpm'' = Inr (v * 525600 * 3.78541)
   \<and> convert_water_to_liters_per_year v ''gal/mo'' = Inr (v * 12 * 3.78541)
   \<and> convert_water_to_liters_per_year 2 ''gpm'' = Inr (2 * 525600 * 3.78541)"
  by (simp add: convert_water_to_liters_per_year_def)

text \<open>
  Claim C2, as stated, fails: a unit outside the tables is not rejected. Both
  conversions return the number 0 for it, here for 5 GW and 5 gal/yr.
\<close>

theorem unknown_unit_not_rejected:
  "convert_power_to_kwh_per_year 5 ''GW'' = Inr 0
   \<and> \<not> isl (convert_power_to_kwh_per_year 5 ''GW'')
   \<and> convert_water_to_liters_per_year 5 ''gal/yr'' = Inr 0
   \<and> \<not> isl (convert_water_to_liters_per_year 5 ''gal/yr'')"
  by (simp add: convert_power_to_kwh_per_year_def convert_water_to_liters_per_year_def)

text \<open>
  Claim C2, amended. For every value and every unit tag outside the power
  table, the power conversion returns 0; for every value and every unit tag
  outside the water table, the water conversion returns 0. Neither fails.
\<close>

theorem unknown_unit_yields_zero:
  "(unit \<notin> set [''kWh/yr'', ''kWh/mo'', ''kW'', ''MW'']
      \<longrightarrow> convert_power_to_kwh_per_year v unit = Inr 0)
   \<and> (unit \<notin> set [''L/yr'', ''L/mo'', ''L/s'', ''gpm'', ''gal/mo'']
      \<longrightarrow> convert_water_to_liters_per_year v unit = Inr 0)"
  by (simp add: convert_power_to_kwh_per_year_def convert_water_to_liters_per_year_def)

theorem unknown_unit_yields_zero_witness:
  "''GW'' \<notin> set [''kWh/yr'', ''kWh/mo'', ''kW'', ''MW'']
   \<and> convert_power_to_kwh_per_year 7 ''GW'' = Inr 0
   \<and> ''GW'' \<notin> set [''L/yr'', ''L/mo'', ''L/s'', ''gpm'', ''gal/mo'']
   \<and> convert_water_to_liters_per_year 7 ''GW'' = Inr 0"
  using unknown_unit_yields_zero [of "''GW''" 7] by simp

section \<open>Input validation\<close>

lemma strip_Nil_iff: "strip s = [] \<longleftrightarrow> list_all py_isspace s"
proof
  assume "list_all py_isspace s"
  then have d: "dropWhile py_isspace s = []"
    by (simp add: list_all_iff)
  show "strip s = []"
    unfolding strip_def d by simp
next
  assume e: "strip s = []"
  show "list_all py_isspace s"
  proof (rule ccontr)
    assume "\<not> list_all py_isspace s"
    then have ne: "dropWhile py_isspace s \<noteq> []"
      by (simp add: list_all_iff)
    then have "\<not> py_isspace (hd (dropWhile py_isspace s))"
      by (rule hd_dropWhile)
    moreover have "hd (dropWhile py_isspace s) \<in> set (rev (dropWhile py_isspace s))"
      using ne by simp
    ultimately have "dropWhile py_isspace (rev (dropWhile py_isspace s)) \<noteq> []"
      by (metis dropWhile_eq_Nil_conv)
    then show False
      using e by (simp add: strip_def)
  qed
qed

lemmas float_eval =
  py_float_def strip_def py_isspace_def float_strip_def float_isspace_def
  is_digit_def digits_value_def py_exponent_def

text \<open>
  Claim C8. Blank input (empty or whitespace only) gives the "not provided"
  state: not valid, and no error reported. The text \<open>-3\<close> is refused with the
  "must be a positive number" message, \<open>abc\<close> with the "must be a valid
  number" message, and \<open>0\<close> is accepted with value 0. The two refusals differ
  from each other and from "not provided".
\<close>

theorem validate_numeric_input_states:
  "(list_all py_isspace s \<longrightarrow> validate_numeric_input s f = ((False, 0), []))
   \<and> validate_numeric_input ''-3'' f = ((False, 0), [f @ '' must be a positive number''])
   \<and> validate_numeric_input ''abc'' f = ((False, 0), [f @ '' must be a valid number''])
   \<and> validate_numeric_input ''0'' f = ((True, 0), [])
   \<and> validate_numeric_input ''-3'' f \<noteq> validate_numeric_input ''abc'' f
   \<and> validate_numeric_input ''-3'' f \<noteq> validate_numeric_input '''' f
   \<and> validate_numeric_input ''abc'' f \<noteq> validate_numeric_input '''' f"
proof -
  have blank: "list_all py_isspace s \<longrightarrow> validate_numeric_input s f = ((False, 0), [])"
    by (simp add: validate_numeric_input_def strip_Nil_iff)
  have neg: "validate_numeric_input ''-3'' f = ((False, 0), [f @ '' must be a positive number''])"
    by (simp add: validate_numeric_input_def float_eval)
  have nan: "validate_numeric_input ''abc'' f = ((False, 0), [f @ '' must be a valid number''])"
    by (simp add: validate_numeric_input_def float_eval)
  have zero: "validate_numeric_input ''0'' f = ((True, 0), [])"
    by (simp add: validate_numeric_input_def float_eval)
  have empty: "validate_numeric_input '''' f = ((False, 0), [])"
    by (simp add: validate_numeric_input_def strip_def)
  show ?thesis
    unfolding neg nan zero empty using blank by simp
qed

theorem validate_numeric_input_states_witness:
  "list_all py_isspace '' ''
   \<and> validate_numeric_input '' '' ''Power consumption'' = ((False, 0), [])"
  using validate_numeric_input_states [of "'' ''" "''Power consumption''"]
  by (simp add: py_isspace_def)

section \<open>Percentile cutoffs\<close>






section \<open>Percentiles of a float64 column\<close>

lemma f64_lt_not_le: "f64_lt a b \<Longrightarrow> \<not> f64_le b a"
  by (cases a; cases b) auto

lemma f64_lt_le_trans: "f64_lt a b \<Longrightarrow> f64_le b c \<Longrightarrow> f64_lt a c"
  by (cases a; cases b; cases c) auto

lemma f64_lerp_Fin:
  "f64_lerp x y g = Fin c \<Longrightarrow> \<exists>a b. x = Fin a \<and> y = Fin b \<and> c = a + (b - a) * g"
  by (cases x; cases y) (auto simp: f64_lerp_def f64_sub_def split: if_splits)

lemma f64_lerp_PInf:
  "f64_lerp x y g = PInf \<Longrightarrow> f64_rank x \<le> f64_rank y \<Longrightarrow> 0 \<le> g \<Longrightarrow> y = PInf"
  by (cases x; cases y) (auto simp: f64_lerp_def f64_sub_def sgn_if split: if_splits)

lemma f64_lerp_not_NInf:
  "f64_rank x \<le> f64_rank y \<Longrightarrow> 0 \<le> g \<Longrightarrow> f64_lerp x y g \<noteq> NInf"
  by (cases x; cases y) (auto simp: f64_lerp_def f64_sub_def sgn_if split: if_splits)

lemma insort_key_Fin:
  "insort_key f64_rank (Fin x) (map Fin ys) = map Fin (insort x ys)"
  by (induction ys) auto

lemma sort_key_Fin: "sort_key f64_rank (map Fin a) = map Fin (sort a)"
  by (induction a) (simp_all add: insort_key_Fin)

lemma rank_sorted_Fin:
  assumes "sorted (map f64_rank s)" and "i \<le> j" and "j < length s"
    and "s ! i = Fin p" and "s ! j = Fin q"
  shows "p \<le> q"
proof -
  have "map f64_rank s ! i \<le> map f64_rank s ! j"
    using assms(1-3) by (intro sorted_nth_mono) simp_all
  then show ?thesis
    using assms(2-5) by simp
qed

lemma rank_sorted_PInf:
  assumes "sorted (map f64_rank s)" and "i \<le> j" and "j < length s"
    and "s ! i = PInf"
  shows "s ! j \<noteq> Fin q"
proof
  assume "s ! j = Fin q"
  moreover have "map f64_rank s ! i \<le> map f64_rank s ! j"
    using assms(1-3) by (intro sorted_nth_mono) simp_all
  ultimately show False
    using assms(2-4) by simp
qed

lemma interpolate_float64_mono:
  assumes srt: "sorted (map f64_rank s)" and ne: "s \<noteq> []"
    and t0: "0 \<le> t" and tu: "t \<le> u" and un: "u \<le> real (length s - 1)"
  shows "\<not> f64_lt (interpolate_float64 s u) (interpolate_float64 s t)"
proof
  define lt where "lt = nat \<lfloor>t\<rfloor>"
  define lu where "lu = nat \<lfloor>u\<rfloor>"
  define ht where "ht = min (lt + 1) (length s - 1)"
  define hu where "hu = min (lu + 1) (length s - 1)"
  define gt where "gt = t - real lt"
  define gu where "gu = u - real lu"
  have u0: "0 \<le> u"
    using t0 tu by linarith
  have len: "0 < length s"
    using ne by simp
  have ltlu: "lt \<le> lu"
    using tu by (simp add: lt_def lu_def floor_mono nat_mono)
  have "real lu \<le> u"
    using u0 by (simp add: lu_def)
  then have "real lu \<le> real (length s - 1)"
    using un by linarith
  then have lu_n: "lu \<le> length s - 1"
    by simp
  have bnd: "lt \<le> ht" "lu \<le> hu" "ht \<le> hu" "hu < length s" "ht < length s"
    "lt < length s" "lu < length s"
    using len lu_n ltlu unfolding ht_def hu_def by linarith+
  have gt0: "0 \<le> gt" and gt1: "gt \<le> 1"
    using t0 by (simp_all add: gt_def lt_def) linarith+
  have gu0: "0 \<le> gu"
    using u0 by (simp add: gu_def lu_def)
  have A: "interpolate_float64 s t = f64_lerp (s ! lt) (s ! ht) gt"
    by (simp add: interpolate_float64_def Let_def lt_def ht_def gt_def)
  have B: "interpolate_float64 s u = f64_lerp (s ! lu) (s ! hu) gu"
    by (simp add: interpolate_float64_def Let_def lu_def hu_def gu_def)
  have rk_t: "f64_rank (s ! lt) \<le> f64_rank (s ! ht)"
    using sorted_nth_mono [OF srt, of lt ht] bnd by simp
  have rk_u: "f64_rank (s ! lu) \<le> f64_rank (s ! hu)"
    using sorted_nth_mono [OF srt, of lu hu] bnd by simp
  assume less: "f64_lt (interpolate_float64 s u) (interpolate_float64 s t)"
  have nB: "f64_lerp (s ! lu) (s ! hu) gu \<noteq> NInf"
    using rk_u gu0 by (rule f64_lerp_not_NInf)
  from less nB obtain \<beta> where Bf: "f64_lerp (s ! lu) (s ! hu) gu = Fin \<beta>"
    unfolding A B
    by (cases "f64_lerp (s ! lu) (s ! hu) gu"; cases "f64_lerp (s ! lt) (s ! ht) gt") auto
  then obtain a' b' where u_br: "s ! lu = Fin a'" "s ! hu = Fin b'"
    and \<beta>: "\<beta> = a' + (b' - a') * gu"
    using f64_lerp_Fin by blast
  from less Bf consider (fin) \<alpha> where "f64_lerp (s ! lt) (s ! ht) gt = Fin \<alpha>" "\<beta> < \<alpha>"
    | (inf) "f64_lerp (s ! lt) (s ! ht) gt = PInf"
    unfolding A B by (cases "f64_lerp (s ! lt) (s ! ht) gt") auto
  then show False
  proof cases
    case fin
    then obtain a b where t_br: "s ! lt = Fin a" "s ! ht = Fin b"
      and \<alpha>: "\<alpha> = a + (b - a) * gt"
      using f64_lerp_Fin by blast
    have ab: "a \<le> b"
      using srt bnd(1) bnd(5) t_br by (rule rank_sorted_Fin)
    have ab': "a' \<le> b'"
      using srt bnd(2) bnd(4) u_br by (rule rank_sorted_Fin)
    show False
    proof (cases "lt = lu")
      case True
      then have "ht = hu"
        by (simp add: ht_def hu_def)
      with True t_br u_br have eq: "a' = a" "b' = b"
        by simp_all
      have "gu - gt = u - t"
        using True by (simp add: gu_def gt_def)
      moreover have "\<beta> - \<alpha> = (b - a) * (gu - gt)"
        by (simp add: \<alpha> \<beta> eq algebra_simps)
      ultimately have "\<beta> - \<alpha> = (b - a) * (u - t)"
        by simp
      moreover have "0 \<le> (b - a) * (u - t)"
        using ab tu by simp
      ultimately show False
        using fin(2) by linarith
    next
      case False
      with ltlu have "ht \<le> lu"
        unfolding ht_def by linarith
      with srt have ba': "b \<le> a'"
        using bnd(7) t_br(2) u_br(1) by (rule rank_sorted_Fin)
      have "(b - a) * gt \<le> (b - a) * 1"
        using ab gt1 by (intro mult_left_mono) simp_all
      then have "\<alpha> \<le> b"
        by (simp add: \<alpha>)
      moreover have "0 \<le> (b' - a') * gu"
        using ab' gu0 by simp
      then have "a' \<le> \<beta>"
        by (simp add: \<beta>)
      ultimately show False
        using ba' fin(2) by linarith
    qed
  next
    case inf
    then have "s ! ht = PInf"
      using rk_t gt0 by (rule f64_lerp_PInf)
    with srt bnd(3) bnd(4) have "s ! hu \<noteq> Fin b'"
      by (rule rank_sorted_PInf)
    then show False
      using u_br by simp
  qed
qed

lemma np_percentile_float64_mono:
  assumes x: "np_percentile_float64 a p = Inr x" and y: "np_percentile_float64 a q = Inr y"
    and p0: "0 \<le> p" and pq: "p \<le> q" and q100: "q \<le> 100"
  shows "\<not> f64_lt y x"
proof (cases "NaN \<in> set a")
  case True
  then have "x = NaN"
    using x by (auto simp: np_percentile_float64_def split: if_splits)
  then show ?thesis
    by (cases y) simp_all
next
  case False
  have ne: "a \<noteq> []"
    using x by (auto simp: np_percentile_float64_def split: if_splits)
  define n where "n = real (length a - 1)"
  define s where "s = sort_key f64_rank a"
  have n0: "0 \<le> n" by (simp add: n_def)
  have srt: "sorted (map f64_rank s)"
    by (simp add: s_def)
  have "length s = length a"
    by (simp add: s_def)
  then have ne': "s \<noteq> []" and ln: "real (length s - 1) = n"
    using ne by (auto simp: n_def)
  have a: "0 \<le> p / 100 * n"
    using p0 n0 by simp
  have b: "p / 100 * n \<le> q / 100 * n"
    using pq n0 by (simp add: mult_right_mono divide_right_mono)
  have "q / 100 * n \<le> 1 * n"
    using q100 n0 by (intro mult_right_mono) simp_all
  then have c: "q / 100 * n \<le> real (length s - 1)"
    unfolding ln by simp
  have "\<not> f64_lt (interpolate_float64 s (q / 100 * n)) (interpolate_float64 s (p / 100 * n))"
    using srt ne' a b c by (rule interpolate_float64_mono)
  moreover have "x = interpolate_float64 s (p / 100 * n)"
    using x False ne by (auto simp: np_percentile_float64_def s_def n_def split: if_splits)
  moreover have "y = interpolate_float64 s (q / 100 * n)"
    using y False ne by (auto simp: np_percentile_float64_def s_def n_def split: if_splits)
  ultimately show ?thesis
    by simp
qed

lemma np_percentile_float64_Fin:
  "np_percentile_float64 (map Fin xs) q = map_sum id Fin (np_percentile xs q)"
proof (cases "q < 0 \<or> 100 < q \<or> xs = []")
  case True
  then show ?thesis
    by (auto simp: np_percentile_float64_def np_percentile_def)
next
  case False
  define n where "n = real (length xs - 1)"
  define idx where "idx = q / 100 * n"
  have n0: "0 \<le> n" by (simp add: n_def)
  have i0: "0 \<le> idx"
    using False n0 by (simp add: idx_def)
  have "q / 100 * n \<le> 1 * n"
    using False n0 by (intro mult_right_mono) simp_all
  then have i1: "idx \<le> n"
    by (simp add: idx_def)
  have "real (nat \<lfloor>idx\<rfloor>) \<le> idx"
    using i0 by simp
  then have "real (nat \<lfloor>idx\<rfloor>) \<le> real (length xs - 1)"
    using i1 by (simp add: n_def)
  then have lo: "nat \<lfloor>idx\<rfloor> \<le> length xs - 1"
    by simp
  have len: "0 < length xs"
    using False by simp
  have ls: "length (sort xs) = length xs"
    by simp
  have lo': "nat \<lfloor>idx\<rfloor> < length (sort xs)"
    and hi': "min (nat \<lfloor>idx\<rfloor> + 1) (length xs - 1) < length (sort xs)"
    unfolding ls using lo len by linarith+
  have "interpolate_float64 (map Fin (sort xs)) idx = Fin (interpolate (sort xs) idx)"
    using lo' hi'
    by (simp add: interpolate_float64_def interpolate_def Let_def f64_lerp_def f64_sub_def)
  moreover have "NaN \<notin> set (map Fin xs)"
    by auto
  ultimately show ?thesis
    using False
    by (simp add: np_percentile_float64_def np_percentile_def sort_key_Fin idx_def n_def
        del: set_map)
qed

section \<open>Cleaning and classification in the map\<close>

lemma create_environmental_map_Inr:
  assumes "create_environmental_map data metric_option state = Inr out"
  obtains vals fs where
    "metric_map data metric_option = Some vals"
    "fips_strings (CountyFIPS data) = Inr fs"
    "length fs = length vals"
    "np_percentile_float64 (map snd (positive_rows (dropna (zip fs vals)))) 33
       = Inr (low_percentile out)"
    "np_percentile_float64 (map snd (positive_rows (dropna (zip fs vals)))) 66
       = Inr (high_percentile out)"
    "rows out = map (\<lambda>(f, v). \<lparr>fips = f, val = v,
         category = categorize_value (low_percentile out) (high_percentile out) v,
         formatted_value = round4 v\<rparr>) (positive_rows (dropna (zip fs vals)))"
  using assms
  by (auto simp: create_environmental_map_def Let_def split: option.splits sum.splits if_splits)

lemma map_val_rows:
  "map val (map (\<lambda>(f, v). \<lparr>fips = f, val = v, category = c v, formatted_value = r v\<rparr>) df)
     = map snd df"
  by (induction df) auto

lemma fips_val_rows:
  "map (\<lambda>r. (fips r, val r))
       (map (\<lambda>(f, v). \<lparr>fips = f, val = v, category = c v, formatted_value = r v\<rparr>) df) = df"
  by (induction df) auto

lemma positive_dropna_eq:
  "positive_rows (dropna df) =
     filter (\<lambda>(f, v). case v of Fin x \<Rightarrow> 0 < x | PInf \<Rightarrow> True | NaN \<Rightarrow> False | NInf \<Rightarrow> False) df"
proof -
  have "(v \<noteq> NaN \<and> f64_lt (Fin 0) v) =
          (case v of Fin x \<Rightarrow> 0 < x | PInf \<Rightarrow> True | NaN \<Rightarrow> False | NInf \<Rightarrow> False)" for v
    by (cases v) simp_all
  then show ?thesis
    by (induction df) (auto simp: positive_rows_def dropna_def)
qed

lemmas map_eval =
  create_environmental_map_def metric_map_def py_str_def zfill_def dropna_def positive_rows_def
  np_percentile_float64_def interpolate_float64_def f64_lerp_def f64_sub_def
  categorize_value_def rint_def count_category_def

lemma rows_values:
  assumes "create_environmental_map data metric_option state = Inr out"
  shows "np_percentile_float64 (map val (rows out)) 33 = Inr (low_percentile out)"
    and "np_percentile_float64 (map val (rows out)) 66 = Inr (high_percentile out)"
    and "\<not> f64_lt (high_percentile out) (low_percentile out)"
    and "\<forall>r \<in> set (rows out).
           category r = categorize_value (low_percentile out) (high_percentile out) (val r)"
proof -
  from assms obtain vals fs where
    lo: "np_percentile_float64 (map snd (positive_rows (dropna (zip fs vals)))) 33
           = Inr (low_percentile out)"
    and hi: "np_percentile_float64 (map snd (positive_rows (dropna (zip fs vals)))) 66
           = Inr (high_percentile out)"
    and rs: "rows out = map (\<lambda>(f, v). \<lparr>fips = f, val = v,
         category = categorize_value (low_percentile out) (high_percentile out) v,
         formatted_value = round4 v\<rparr>) (positive_rows (dropna (zip fs vals)))"
    by (rule create_environmental_map_Inr)
  have vs: "map val (rows out) = map snd (positive_rows (dropna (zip fs vals)))"
    unfolding rs by (rule map_val_rows)
  show "np_percentile_float64 (map val (rows out)) 33 = Inr (low_percentile out)"
    and "np_percentile_float64 (map val (rows out)) 66 = Inr (high_percentile out)"
    using lo hi vs by simp_all
  show "\<not> f64_lt (high_percentile out) (low_percentile out)"
    using lo hi by (rule np_percentile_float64_mono) simp_all
  show "\<forall>r \<in> set (rows out).
           category r = categorize_value (low_percentile out) (high_percentile out) (val r)"
    unfolding rs by auto
qed

text \<open>
  Claim C3. Whenever the map is produced, its two cutoffs are the 33rd and
  66th percentile of the retained values, and every retained row is bucketed
  by them: a value at most the low cutoff is Low, a value above the low and at
  most the high cutoff is Medium, a value above the high cutoff is High, so a
  value equal to a cutoff takes the lower bucket. The comparisons are those
  of floats, and on a column of finite numbers the percentile is the one of
  the linear-interpolation formula. For the values 1, 1, 1, 1, 100 the four
  1's are Low and 100 is High.
\<close>

theorem buckets_follow_cutoffs:
  "(create_environmental_map data metric_option state = Inr out \<longrightarrow>
      np_percentile_float64 (map val (rows out)) 33 = Inr (low_percentile out)
      \<and> np_percentile_float64 (map val (rows out)) 66 = Inr (high_percentile out)
      \<and> (\<forall>r \<in> set (rows out).
            (f64_le (val r) (low_percentile out) \<longrightarrow> category r = Low_Impact)
            \<and> (f64_lt (low_percentile out) (val r) \<and> f64_le (val r) (high_percentile out)
                  \<longrightarrow> category r = Medium_Impact)
            \<and> (f64_lt (high_percentile out) (val r) \<longrightarrow> category r = High_Impact)))
   \<and> np_percentile_float64 (map Fin xs) q = map_sum id Fin (np_percentile xs q)
   \<and> (case create_environmental_map
            \<lparr>AWAREUSCF = [Fin 1, Fin 1, Fin 1, Fin 1, Fin 100],
             EFkgkWh = [Fin 1, Fin 1, Fin 1, Fin 1, Fin 100],
             EWIF = [Fin 1, Fin 1, Fin 1, Fin 1, Fin 100],
             CountyFIPS = [Fin 1001, Fin 1003, Fin 1005, Fin 1007, Fin 1009]\<rparr>
            ''carbon footprint'' ''USA'' of
         Inl e \<Rightarrow> False
       | Inr out \<Rightarrow>
           map (\<lambda>r. (val r, category r)) (rows out) =
             [(Fin 1, Low_Impact), (Fin 1, Low_Impact), (Fin 1, Low_Impact),
              (Fin 1, Low_Impact), (Fin 100, High_Impact)])"
proof (intro conjI impI)
  assume a: "create_environmental_map data metric_option state = Inr out"
  show "np_percentile_float64 (map val (rows out)) 33 = Inr (low_percentile out)"
    and "np_percentile_float64 (map val (rows out)) 66 = Inr (high_percentile out)"
    using a by (rule rows_values)+
  have ord: "\<not> f64_lt (high_percentile out) (low_percentile out)"
    using a by (rule rows_values)
  have cat: "\<forall>r \<in> set (rows out).
           category r = categorize_value (low_percentile out) (high_percentile out) (val r)"
    using a by (rule rows_values)
  show "\<forall>r \<in> set (rows out).
            (f64_le (val r) (low_percentile out) \<longrightarrow> category r = Low_Impact)
            \<and> (f64_lt (low_percentile out) (val r) \<and> f64_le (val r) (high_percentile out)
                  \<longrightarrow> category r = Medium_Impact)
            \<and> (f64_lt (high_percentile out) (val r) \<longrightarrow> category r = High_Impact)"
  proof (intro ballI conjI impI)
    fix r assume r: "r \<in> set (rows out)"
    then have c: "category r =
        categorize_value (low_percentile out) (high_percentile out) (val r)"
      using cat by blast
    {
      assume "f64_le (val r) (low_percentile out)"
      then show "category r = Low_Impact"
        by (simp add: c categorize_value_def)
    }
    {
      assume "f64_lt (low_percentile out) (val r) \<and> f64_le (val r) (high_percentile out)"
      then show "category r = Medium_Impact"
        by (simp add: c categorize_value_def f64_lt_not_le)
    }
    {
      assume h: "f64_lt (high_percentile out) (val r)"
      then have "\<not> f64_le (val r) (high_percentile out)"
        by (rule f64_lt_not_le)
      moreover have "\<not> f64_le (val r) (low_percentile out)"
        using h ord f64_lt_le_trans by blast
      ultimately show "category r = High_Impact"
        by (simp add: c categorize_value_def)
    }
  qed
next
  show "np_percentile_float64 (map Fin xs) q = map_sum id Fin (np_percentile xs q)"
    by (rule np_percentile_float64_Fin)
next
  show "case create_environmental_map
            \<lparr>AWAREUSCF = [Fin 1, Fin 1, Fin 1, Fin 1, Fin 100],
             EFkgkWh = [Fin 1, Fin 1, Fin 1, Fin 1, Fin 100],
             EWIF = [Fin 1, Fin 1, Fin 1, Fin 1, Fin 100],
             CountyFIPS = [Fin 1001, Fin 1003, Fin 1005, Fin 1007, Fin 1009]\<rparr>
            ''carbon footprint'' ''USA'' of
         Inl e \<Rightarrow> False
       | Inr out \<Rightarrow>
           map (\<lambda>r. (val r, category r)) (rows out) =
             [(Fin 1, Low_Impact), (Fin 1, Low_Impact), (Fin 1, Low_Impact),
              (Fin 1, Low_Impact), (Fin 100, High_Impact)]"
    by (simp add: map_eval)
qed

theorem buckets_follow_cutoffs_witness:
  "create_environmental_map
      \<lparr>AWAREUSCF = [Fin 3, Fin 7], EFkgkWh = [Fin 3, Fin 7], EWIF = [Fin 3, Fin 7],
       CountyFIPS = [Fin 1001, Fin 1003]\<rparr> ''carbon footprint'' ''USA''
     = Inr \<lparr>rows = [\<lparr>fips = ''01001'', val = Fin 3, category = Low_Impact,
                      formatted_value = Fin 3\<rparr>,
                   \<lparr>fips = ''01003'', val = Fin 7, category = High_Impact,
                      formatted_value = Fin 7\<rparr>],
            low_percentile = Fin (108 / 25), high_percentile = Fin (141 / 25),
            low_count = 1, medium_count = 0, high_count = 1\<rparr>
   \<and> np_percentile_float64 [Fin 3, Fin 7] 33 = Inr (Fin (108 / 25))
   \<and> np_percentile_float64 [Fin 3, Fin 7] 66 = Inr (Fin (141 / 25))"
  using buckets_follow_cutoffs
    [of "\<lparr>AWAREUSCF = [Fin 3, Fin 7], EFkgkWh = [Fin 3, Fin 7], EWIF = [Fin 3, Fin 7],
          CountyFIPS = [Fin 1001, Fin 1003]\<rparr>" "''carbon footprint''" "''USA''"
        "\<lparr>rows = [\<lparr>fips = ''01001'', val = Fin 3, category = Low_Impact,
                      formatted_value = Fin 3\<rparr>,
                   \<lparr>fips = ''01003'', val = Fin 7, category = High_Impact,
                      formatted_value = Fin 7\<rparr>],
            low_percentile = Fin (108 / 25), high_percentile = Fin (141 / 25),
            low_count = 1, medium_count = 0, high_count = 1\<rparr>"]
  by (simp add: map_eval)

text \<open>
  Claim C4, as stated, fails: a non-finite value other than NaN is not
  dropped. Plus infinity is no missing value for \<open>dropna\<close> and is above 0,
  so the pair of county 01003 with plus infinity survives the cleaning and is
  a row of the map.
\<close>

theorem infinite_value_survives_cleaning:
  "positive_rows (dropna [(''01001'', Fin 3), (''01003'', PInf), (''01005'', NaN)])
     = [(''01001'', Fin 3), (''01003'', PInf)]
   \<and> (case create_environmental_map
            \<lparr>AWAREUSCF = [Fin 3, PInf, NaN], EFkgkWh = [Fin 3, PInf, NaN],
             EWIF = [Fin 3, PInf, NaN],
             CountyFIPS = [Fin 1001, Fin 1003, Fin 1005]\<rparr>
            ''carbon footprint'' ''USA'' of
         Inl e \<Rightarrow> False
       | Inr out \<Rightarrow> map (\<lambda>r. (fips r, val r)) (rows out)
                      = [(''01001'', Fin 3), (''01003'', PInf)])"
  by (simp add: map_eval)

text \<open>
  Claim C4, amended. Before the percentiles are computed, every pair whose
  value is NaN or at most 0 (minus infinity included) is dropped and every
  other pair, a finite number above 0 or plus infinity, is kept, in order;
  the cutoffs are percentiles of exactly the kept values. For the values
  0, -5, 3, 7, NaN the retained values are 3 and 7.
\<close>

theorem cleaning_keeps_positive_numbers:
  "(create_environmental_map data metric_option state = Inr out \<longrightarrow>
    metric_map data metric_option = Some vals \<longrightarrow>
    fips_strings (CountyFIPS data) = Inr fs \<longrightarrow>
      map (\<lambda>r. (fips r, val r)) (rows out) =
        filter (\<lambda>(f, v). case v of Fin x \<Rightarrow> 0 < x | PInf \<Rightarrow> True
                            | NaN \<Rightarrow> False | NInf \<Rightarrow> False) (zip fs vals)
      \<and> np_percentile_float64 (map val (rows out)) 33 = Inr (low_percentile out)
      \<and> np_percentile_float64 (map val (rows out)) 66 = Inr (high_percentile out))
   \<and> (case create_environmental_map
            \<lparr>AWAREUSCF = [Fin 0, Fin (- 5), Fin 3, Fin 7, NaN],
             EFkgkWh = [Fin 0, Fin (- 5), Fin 3, Fin 7, NaN],
             EWIF = [Fin 0, Fin (- 5), Fin 3, Fin 7, NaN],
             CountyFIPS = [Fin 1001, Fin 1003, Fin 1005, Fin 1007, Fin 1009]\<rparr>
            ''scope 1 & 2 water footprint'' ''USA'' of
         Inl e \<Rightarrow> False
       | Inr out \<Rightarrow>
           map val (rows out) = [Fin 3, Fin 7]
           \<and> np_percentile_float64 [Fin 3, Fin 7] 33 = Inr (low_percentile out)
           \<and> np_percentile_float64 [Fin 3, Fin 7] 66 = Inr (high_percentile out))"
proof (intro conjI impI)
  assume a: "create_environmental_map data metric_option state = Inr out"
    and m: "metric_map data metric_option = Some vals"
    and f: "fips_strings (CountyFIPS data) = Inr fs"
  show "np_percentile_float64 (map val (rows out)) 33 = Inr (low_percentile out)"
    and "np_percentile_float64 (map val (rows out)) 66 = Inr (high_percentile out)"
    using a by (rule rows_values)+
  from a obtain vals' fs' where
    "metric_map data metric_option = Some vals'"
    "fips_strings (CountyFIPS data) = Inr fs'"
    and rs: "rows out = map (\<lambda>(f, v). \<lparr>fips = f, val = v,
         category = categorize_value (low_percentile out) (high_percentile out) v,
         formatted_value = round4 v\<rparr>) (positive_rows (dropna (zip fs' vals')))"
    by (rule create_environmental_map_Inr)
  with m f have "vals' = vals" "fs' = fs"
    by simp_all
  with rs show "map (\<lambda>r. (fips r, val r)) (rows out) =
        filter (\<lambda>(f, v). case v of Fin x \<Rightarrow> 0 < x | PInf \<Rightarrow> True
                            | NaN \<Rightarrow> False | NInf \<Rightarrow> False) (zip fs vals)"
    by (simp only: fips_val_rows positive_dropna_eq)
next
  show "case create_environmental_map
            \<lparr>AWAREUSCF = [Fin 0, Fin (- 5), Fin 3, Fin 7, NaN],
             EFkgkWh = [Fin 0, Fin (- 5), Fin 3, Fin 7, NaN],
             EWIF = [Fin 0, Fin (- 5), Fin 3, Fin 7, NaN],
             CountyFIPS = [Fin 1001, Fin 1003, Fin 1005, Fin 1007, Fin 1009]\<rparr>
            ''scope 1 & 2 water footprint'' ''USA'' of
         Inl e \<Rightarrow> False
       | Inr out \<Rightarrow>
           map val (rows out) = [Fin 3, Fin 7]
           \<and> np_percentile_float64 [Fin 3, Fin 7] 33 = Inr (low_percentile out)
           \<and> np_percentile_float64 [Fin 3, Fin 7] 66 = Inr (high_percentile out)"
    by (simp add: map_eval)
qed

theorem cleaning_keeps_positive_numbers_witness:
  "create_environmental_map
      \<lparr>AWAREUSCF = [Fin 0, Fin 7, NaN], EFkgkWh = [Fin 0, Fin 7, NaN],
       EWIF = [Fin 0, Fin 7, NaN], CountyFIPS = [Fin 1001, Fin 1003, Fin 1005]\<rparr>
      ''water scarcity footprint'' ''USA''
     = Inr \<lparr>rows = [\<lparr>fips = ''01003'', val = Fin 7, category = Low_Impact,
                      formatted_value = Fin 7\<rparr>],
            low_percentile = Fin 7, high_percentile = Fin 7,
            low_count = 1, medium_count = 0, high_count = 0\<rparr>
   \<and> metric_map
        \<lparr>AWAREUSCF = [Fin 0, Fin 7, NaN], EFkgkWh = [Fin 0, Fin 7, NaN],
         EWIF = [Fin 0, Fin 7, NaN], CountyFIPS = [Fin 1001, Fin 1003, Fin 1005]\<rparr>
        ''water scarcity footprint'' = Some [Fin 0, Fin 7, NaN]
   \<and> fips_strings [Fin 1001, Fin 1003, Fin 1005] = Inr [''01001'', ''01003'', ''01005'']
   \<and> filter (\<lambda>(f, v). case v of Fin x \<Rightarrow> 0 < x | PInf \<Rightarrow> True
                        | NaN \<Rightarrow> False | NInf \<Rightarrow> False)
        (zip [''01001'', ''01003'', ''01005''] [Fin 0, Fin 7, NaN]) = [(''01003'', Fin 7)]
   \<and> np_percentile_float64 [Fin 7] 33 = Inr (Fin 7)"
  using cleaning_keeps_positive_numbers
    [of "\<lparr>AWAREUSCF = [Fin 0, Fin 7, NaN], EFkgkWh = [Fin 0, Fin 7, NaN],
          EWIF = [Fin 0, Fin 7, NaN], CountyFIPS = [Fin 1001, Fin 1003, Fin 1005]\<rparr>"
        "''water scarcity footprint''" "''USA''"
        "\<lparr>rows = [\<lparr>fips = ''01003'', val = Fin 7, category = Low_Impact,
                      formatted_value = Fin 7\<rparr>],
            low_percentile = Fin 7, high_percentile = Fin 7,
            low_count = 1, medium_count = 0, high_count = 0\<rparr>"
        "[Fin 0, Fin 7, NaN]" "[''01001'', ''01003'', ''01005'']"]
  by (simp add: map_eval)

text \<open>
  Claim C1 does not hold of the code: the selected state has no effect. With
  one county of Alabama (01001) and one of California (06037) in the data,
  the map for "Alabama" contains both, and is the map for "USA".
\<close>

theorem state_selector_ignored:
  "create_environmental_map
      \<lparr>AWAREUSCF = [Fin 1, Fin 2], EFkgkWh = [Fin 1, Fin 2], EWIF = [Fin 1, Fin 2],
       CountyFIPS = [Fin 1001, Fin 6037]\<rparr> ''carbon footprint'' ''Alabama''
     = Inr \<lparr>rows = [\<lparr>fips = ''01001'', val = Fin 1, category = Low_Impact,
                      formatted_value = Fin 1\<rparr>,
                   \<lparr>fips = ''06037'', val = Fin 2, category = High_Impact,
                      formatted_value = Fin 2\<rparr>],
            low_percentile = Fin (133 / 100), high_percentile = Fin (83 / 50),
            low_count = 1, medium_count = 0, high_count = 1\<rparr>
   \<and> create_environmental_map
      \<lparr>AWAREUSCF = [Fin 1, Fin 2], EFkgkWh = [Fin 1, Fin 2], EWIF = [Fin 1, Fin 2],
       CountyFIPS = [Fin 1001, Fin 6037]\<rparr> ''carbon footprint'' ''Alabama''
     = create_environmental_map
      \<lparr>AWAREUSCF = [Fin 1, Fin 2], EFkgkWh = [Fin 1, Fin 2], EWIF = [Fin 1, Fin 2],
       CountyFIPS = [Fin 1001, Fin 6037]\<rparr> ''carbon footprint'' ''USA''"
  by (simp add: map_eval)

text \<open>
  Claim C9 does not hold of the code: when cleaning leaves no county, no
  empty result is produced or signalled. The percentile of the empty frame is
  taken without a guard, its exception ends \<open>create_environmental_map\<close>, and
  \<open>main\<close> shows nothing.
\<close>

theorem empty_frame_raises:
  "create_environmental_map
      \<lparr>AWAREUSCF = [Fin 0, NaN], EFkgkWh = [Fin 0, NaN], EWIF = [Fin 0, NaN],
       CountyFIPS = [Fin 1001, Fin 1003]\<rparr> ''carbon footprint'' ''USA''
     = Inl IndexError
   \<and> main True '''' ''kWh/yr'' '''' ''L/yr'' ''carbon footprint'' ''USA''
      \<lparr>AWAREUSCF = [Fin 0, NaN], EFkgkWh = [Fin 0, NaN], EWIF = [Fin 0, NaN],
       CountyFIPS = [Fin 1001, Fin 1003]\<rparr>
     = Inl IndexError"
proof -
  have c: "create_environmental_map
      \<lparr>AWAREUSCF = [Fin 0, NaN], EFkgkWh = [Fin 0, NaN], EWIF = [Fin 0, NaN],
       CountyFIPS = [Fin 1001, Fin 1003]\<rparr> ''carbon footprint'' ''USA''
     = Inl IndexError"
    by (simp add: map_eval)
  show ?thesis
    unfolding main_def c by (simp add: strip_def)
qed

section \<open>The facility panel\<close>

lemma validate_valid_no_message:
  "validate_numeric_input s f = ((True, x), msgs) \<Longrightarrow> msgs = []"
  by (auto simp: validate_numeric_input_def split: if_splits option.splits)

lemma main_facility_only_if_both:
  assumes "main make_plot pv pu wv wu m st d = Inr evs" and "Facility_Shown fv \<in> set evs"
  shows "make_plot \<and> strip pv \<noteq> [] \<and> strip wv \<noteq> []"
  using assms
  by (auto simp: main_def Let_def split: if_splits prod.splits sum.splits)

lemma main_power_only:
  assumes "strip pv \<noteq> []" and "strip wv = []"
    and "validate_numeric_input pv ''Power consumption'' = ((True, x), msgs)"
  shows "main True pv pu wv wu m st d =
           map_sum id (\<lambda>mv. [Map_Shown mv]) (create_environmental_map d m st)"
proof -
  have "msgs = []"
    using assms(3) by (rule validate_valid_no_message)
  then show ?thesis
    using assms by (simp add: main_def split: sum.splits)
qed

lemma main_water_only:
  assumes "strip pv = []" and "strip wv \<noteq> []"
    and "validate_numeric_input wv ''Water consumption'' = ((True, x), msgs)"
  shows "main True pv pu wv wu m st d =
           map_sum id (\<lambda>mv. [Map_Shown mv]) (create_environmental_map d m st)"
proof -
  have "msgs = []"
    using assms(3) by (rule validate_valid_no_message)
  then show ?thesis
    using assms by (simp add: main_def split: sum.splits)
qed

text \<open>
  Claim C10. The facility panel is shown only when "Make Plot" was pressed
  and both text inputs are non-blank after stripping. When exactly one input
  is given and valid, the run shows the map alone (or ends with the map's
  exception): no converted consumption is produced for either field.
\<close>

theorem facility_impact_needs_both_inputs:
  "(main make_plot pv pu wv wu m st d = Inr evs \<longrightarrow> Facility_Shown fv \<in> set evs \<longrightarrow>
      make_plot \<and> strip pv \<noteq> [] \<and> strip wv \<noteq> [])
   \<and> (strip pv \<noteq> [] \<and> strip wv = []
        \<and> validate_numeric_input pv ''Power consumption'' = ((True, x), msgs) \<longrightarrow>
      main True pv pu wv wu m st d =
        map_sum id (\<lambda>mv. [Map_Shown mv]) (create_environmental_map d m st))
   \<and> (strip pv = [] \<and> strip wv \<noteq> []
        \<and> validate_numeric_input wv ''Water consumption'' = ((True, x), msgs) \<longrightarrow>
      main True pv pu wv wu m st d =
        map_sum id (\<lambda>mv. [Map_Shown mv]) (create_environmental_map d m st))"
  using main_facility_only_if_both [of make_plot pv pu wv wu m st d evs fv]
    main_power_only [of pv wv x msgs pu wu m st d]
    main_water_only [of pv wv x msgs pu wu m st d]
  by blast

theorem facility_impact_needs_both_inputs_witness:
  "strip ''5'' \<noteq> [] \<and> strip '' '' = []
   \<and> validate_numeric_input ''5'' ''Power consumption'' = ((True, 5), [])
   \<and> main True ''5'' ''kW'' '' '' ''gpm'' ''carbon footprint'' ''USA''
        \<lparr>AWAREUSCF = [Fin 4], EFkgkWh = [Fin 4], EWIF = [Fin 4], CountyFIPS = [Fin 1001]\<rparr>
      = Inr [Map_Shown
              \<lparr>rows = [\<lparr>fips = ''01001'', val = Fin 4, category = Low_Impact,
                         formatted_value = Fin 4\<rparr>],
               low_percentile = Fin 4, high_percentile = Fin 4,
               low_count = 1, medium_count = 0, high_count = 0\<rparr>]
   \<and> main True ''5'' ''kW'' ''2'' ''gpm'' ''carbon footprint'' ''USA''
        \<lparr>AWAREUSCF = [Fin 4], EFkgkWh = [Fin 4], EWIF = [Fin 4], CountyFIPS = [Fin 1001]\<rparr>
      = Inr [Map_Shown
              \<lparr>rows = [\<lparr>fips = ''01001'', val = Fin 4, category = Low_Impact,
                         formatted_value = Fin 4\<rparr>],
               low_percentile = Fin 4, high_percentile = Fin 4,
               low_count = 1, medium_count = 0, high_count = 0\<rparr>,
             Facility_Shown \<lparr>power_kwh_per_year = 43800,
                             water_liters_per_year = 2 * 525600 * 3.78541\<rparr>]"
proof -
  have v: "validate_numeric_input ''5'' ''Power consumption'' = ((True, 5), [])"
    by (simp add: validate_numeric_input_def float_eval)
  have w: "validate_numeric_input ''2'' ''Water consumption'' = ((True, 2), [])"
    by (simp add: validate_numeric_input_def float_eval)
  have s: "strip ''5'' \<noteq> []" "strip '' '' = []" "strip ''2'' \<noteq> []"
    by (simp_all add: strip_def py_isspace_def)
  have c: "create_environmental_map
        \<lparr>AWAREUSCF = [Fin 4], EFkgkWh = [Fin 4], EWIF = [Fin 4], CountyFIPS = [Fin 1001]\<rparr>
        ''carbon footprint'' ''USA''
      = Inr \<lparr>rows = [\<lparr>fips = ''01001'', val = Fin 4, category = Low_Impact,
                         formatted_value = Fin 4\<rparr>],
               low_percentile = Fin 4, high_percentile = Fin 4,
               low_count = 1, medium_count = 0, high_count = 0\<rparr>"
    by (simp add: map_eval)
  have both: "main True ''5'' ''kW'' ''2'' ''gpm'' ''carbon footprint'' ''USA''
        \<lparr>AWAREUSCF = [Fin 4], EFkgkWh = [Fin 4], EWIF = [Fin 4], CountyFIPS = [Fin 1001]\<rparr>
      = Inr [Map_Shown
              \<lparr>rows = [\<lparr>fips = ''01001'', val = Fin 4, category = Low_Impact,
                         formatted_value = Fin 4\<rparr>],
               low_percentile = Fin 4, high_percentile = Fin 4,
               low_count = 1, medium_count = 0, high_count = 0\<rparr>,
             Facility_Shown \<lparr>power_kwh_per_year = 43800,
                             water_liters_per_year = 2 * 525600 * 3.78541\<rparr>]"
    unfolding main_def v w c using s
    by (simp add: calculate_facility_impact_def convert_power_to_kwh_per_year_def
        convert_water_to_liters_per_year_def)
  show ?thesis
    using facility_impact_needs_both_inputs
      [of True "''5''" "''kW''" "'' ''" "''gpm''" "''carbon footprint''" "''USA''"
          "\<lparr>AWAREUSCF = [Fin 4], EFkgkWh = [Fin 4], EWIF = [Fin 4], CountyFIPS = [Fin 1001]\<rparr>"
          _ _ 5 "[]"]
      v s c both
    by simp
qed

end
